theory Spec2Isabelle
  imports Complex_Main
begin

section \<open>The perceptive-models tutorial module: data\<close>

text \<open>
  The development embeds \<^verbatim>\<open>src/perceptiveModels/tutorial_perceptiveModels.cpp\<close>:
  the class \<^verbatim>\<open>ExampleModule\<close> (\<^verbatim>\<open>configure\<close>, \<^verbatim>\<open>close\<close>, \<^verbatim>\<open>getPeriod\<close>,
  \<^verbatim>\<open>updateModule\<close>) and \<^verbatim>\<open>main\<close>.

  Conventions of the embedding.
  \<^item> A C++ \<^verbatim>\<open>double\<close> is a \<^typ>\<open>real\<close>: arithmetic is exact, rounding and the
    non-finite values of the machine format are not represented.
  \<^item> Every call that leaves the module (the control-board driver, the perceptive model,
    \<^verbatim>\<open>printf\<close>) is recorded as an \<open>event\<close>, except \<^verbatim>\<open>driver.view\<close>, which only hands out the
    interfaces of the opened driver; each operation returns the events it caused, in
    program order. What such a call answers is an input: the record \<open>robot_env\<close> for the
    calls of \<^verbatim>\<open>configure\<close>, the record \<open>tick_in\<close> for the calls of one \<^verbatim>\<open>updateModule\<close>.
  \<^item> The member \<^verbatim>\<open>double *val\<close> only ever holds \<^verbatim>\<open>&min\<close> or \<^verbatim>\<open>&max\<close>; it is the
    datatype \<open>target_ptr\<close>, compared by address, and \<open>deref\<close> reads the member it points to.
\<close>

datatype pvalue = PString string | PInt int | PGroup "(string \<times> string) list"

type_synonym Property = "(string \<times> pvalue) list"

datatype model_kind = SpringyFingersModel | TactileFingersModel

datatype target_ptr = AddrMin | AddrMax

text \<open>
  The members of \<^verbatim>\<open>ExampleModule\<close>. \<^verbatim>\<open>min\<close> and \<^verbatim>\<open>max\<close> are \<open>min_d\<close> and \<open>max_d\<close>
  (the plain names are HOL constants). \<^verbatim>\<open>ipos\<close> and \<^verbatim>\<open>ienc\<close> are views of \<^verbatim>\<open>driver\<close> and
  are not separate state. The constructor initialises \<^verbatim>\<open>calibrate\<close> alone; the other members
  have no value before \<^verbatim>\<open>configure\<close> assigns them, so the record is built by \<open>configure\<close>.
\<close>

record ExampleModule =
  model :: model_kind
  calibrate :: bool
  fingerName :: string
  min_d :: real
  max_d :: real
  val :: target_ptr
  joint :: int

datatype event =
    Printf string
  | DriverOpen Property
  | DriverClose
  | GetLimits int
  | PrintConfiguringOptions Property
  | NewModel model_kind
  | FromProperty model_kind Property
  | DeleteModel
  | ToProperty
  | PrintModelOptions
  | Calibrate Property
  | SetRefAcceleration int real
  | SetRefSpeed int real
  | PositionMove int real
  | GetNode string
  | Report string string string
  | GetEncoder int

text \<open>
  \<^verbatim>\<open>ResourceFinder\<close>: the defaults set by \<^verbatim>\<open>setDefault\<close> and the options read from the
  command line by \<^verbatim>\<open>rf.configure(argc,argv)\<close>, as (option, value) pairs; a command-line
  option wins over a default, and \<^verbatim>\<open>find(k).asString()\<close> of a key that is absent is the
  empty string.
\<close>

record ResourceFinder =
  defaults :: "(string \<times> string) list"
  cmdline :: "(string \<times> string) list"

definition ResourceFinder_new :: ResourceFinder where
  "ResourceFinder_new = \<lparr>defaults = [], cmdline = []\<rparr>"

definition setDefault :: "ResourceFinder \<Rightarrow> string \<Rightarrow> string \<Rightarrow> ResourceFinder" where
  "setDefault rf k v = rf\<lparr>defaults := (k, v) # defaults rf\<rparr>"

definition rf_configure :: "ResourceFinder \<Rightarrow> (string \<times> string) list \<Rightarrow> ResourceFinder" where
  "rf_configure rf args = rf\<lparr>cmdline := args\<rparr>"

definition find_asString :: "ResourceFinder \<Rightarrow> string \<Rightarrow> string" where
  "find_asString rf k =
     (case map_of (cmdline rf) k of
        Some v \<Rightarrow> v
      | None \<Rightarrow> (case map_of (defaults rf) k of Some v \<Rightarrow> v | None \<Rightarrow> ''''))"

text \<open>
  What the outside answers to \<^verbatim>\<open>configure\<close>: whether \<^verbatim>\<open>driver.open\<close> accepts the options
  it is given, the limits \<^verbatim>\<open>ilim->getLimits\<close> writes for a joint, and whether the model's
  \<^verbatim>\<open>fromProperty\<close> accepts its options.
\<close>

record robot_env =
  driver_open :: "Property \<Rightarrow> bool"
  getLimits :: "int \<Rightarrow> real \<times> real"
  fromProperty :: "model_kind \<Rightarrow> Property \<Rightarrow> bool"

text \<open>
  What the outside answers during one \<^verbatim>\<open>updateModule\<close>: the result of
  \<^verbatim>\<open>model->calibrate\<close>, the node \<^verbatim>\<open>model->getNode(fingerName)\<close> (\<open>None\<close> is the null
  pointer; otherwise its name, sensors data and output as printed), and the encoder value
  \<^verbatim>\<open>ienc->getEncoder\<close> writes to \<^verbatim>\<open>fb\<close>.
\<close>

record node_reading =
  node_name :: string
  sensors_data :: string
  node_output :: string

record tick_in =
  calibrate_ret :: bool
  node :: "node_reading option"
  fb :: real

datatype cfg_error = UnknownFinger | DriverOpenFailed | UnknownModelType | FromPropertyFailed

section \<open>\<^verbatim>\<open>ExampleModule::configure\<close>\<close>

text \<open>Lines 122--136: the chain of comparisons that assigns \<^verbatim>\<open>joint\<close>.\<close>

definition finger_joint :: "string \<Rightarrow> int option" where
  "finger_joint f =
     (if f = ''thumb'' then Some 10
      else if f = ''index'' then Some 12
      else if f = ''middle'' then Some 14
      else if f = ''ring'' then Some 15
      else if f = ''little'' then Some 15
      else None)"

text \<open>Lines 171--179: the model class chosen by \<^verbatim>\<open>modelType\<close>.\<close>

definition new_model :: "string \<Rightarrow> model_kind option" where
  "new_model t =
     (if t = ''springy'' then Some SpringyFingersModel
      else if t = ''tactile'' then Some TactileFingersModel
      else None)"

text \<open>Lines 138--140: the options of the remote control board.\<close>

definition driverOpt :: "string \<Rightarrow> string \<Rightarrow> string \<Rightarrow> Property" where
  "driverOpt name robot hand =
     [(''device'', PString ''remote_controlboard''),
      (''remote'', PString (''/'' @ robot @ ''/'' @ hand @ ''_arm'')),
      (''local'', PString (''/'' @ name))]"

text \<open>Lines 156--168: the options of the model, the general part followed by one group per finger.\<close>

definition genOpt :: "string \<Rightarrow> string \<Rightarrow> string \<Rightarrow> string \<Rightarrow> Property" where
  "genOpt name robot hand modelType =
     [(''name'', PString (name @ ''/'' @ modelType)),
      (''robot'', PString robot),
      (''type'', PString hand),
      (''verbose'', PInt 1)]"

definition model_options :: "string \<Rightarrow> string \<Rightarrow> string \<Rightarrow> string \<Rightarrow> Property" where
  "model_options name robot hand modelType =
     genOpt name robot hand modelType @
     [(''thumb'', PGroup [(''name'', ''thumb'')]),
      (''index'', PGroup [(''name'', ''index'')]),
      (''middle'', PGroup [(''name'', ''middle'')]),
      (''ring'', PGroup [(''name'', ''ring'')]),
      (''little'', PGroup [(''name'', ''little'')])]"

text \<open>
  \<^verbatim>\<open>configure\<close> returns \<^verbatim>\<open>false\<close> at four places; \<open>Inl\<close> says which one, \<open>Inr\<close> is the
  return of \<^verbatim>\<open>true\<close> with the members as assigned. The argument \<open>cal\<close> is the member
  \<^verbatim>\<open>calibrate\<close> as the constructor left it: \<^verbatim>\<open>configure\<close> does not write it.
  \<open>margin\<close>, \<open>mn'\<close> and \<open>mx'\<close> are the expressions of lines 151--153 with the exact operations
  of \<^typ>\<open>real\<close>; the source evaluates them in binary64. Where a theorem below names the two
  bounds it does so by these expressions, and the concrete values used (limits (0, 90) and
  (90, 0), bounds 9 and 81) are exact in binary64 too.
\<close>

definition configure ::
  "robot_env \<Rightarrow> bool \<Rightarrow> ResourceFinder \<Rightarrow> (cfg_error + ExampleModule) \<times> event list" where
  "configure env cal rf =
     (let name = find_asString rf ''name'';
          robot = find_asString rf ''robot'';
          hand = find_asString rf ''hand'';
          modelType = find_asString rf ''modelType'';
          finger = find_asString rf ''finger''
      in case finger_joint finger of
           None \<Rightarrow> (Inl UnknownFinger, [Printf ''unknown finger!\<newline>''])
         | Some j \<Rightarrow>
             let dopt = driverOpt name robot hand;
                 ev1 = [DriverOpen dopt]
             in if \<not> driver_open env dopt then (Inl DriverOpenFailed, ev1)
                else
                  let (mn, mx) = getLimits env j;
                      margin = 0.1 * (mx - mn);
                      mn' = mn + margin;
                      mx' = mx - margin;
                      options = model_options name robot hand modelType;
                      ev2 = ev1 @ [GetLimits j, PrintConfiguringOptions options]
                  in case new_model modelType of
                       None \<Rightarrow> (Inl UnknownModelType, ev2 @ [Printf ''unknown model type!\<newline>''])
                     | Some k \<Rightarrow>
                         if fromProperty env k options
                         then (Inr \<lparr>model = k, calibrate = cal, fingerName = finger,
                                    min_d = mn', max_d = mx', val = AddrMin, joint = j\<rparr>,
                               ev2 @ [NewModel k, FromProperty k options])
                         else (Inl FromPropertyFailed,
                               ev2 @ [NewModel k, FromProperty k options, DeleteModel]))"

section \<open>\<^verbatim>\<open>ExampleModule::updateModule\<close>, \<^verbatim>\<open>close\<close>, \<^verbatim>\<open>getPeriod\<close>\<close>

definition deref :: "ExampleModule \<Rightarrow> target_ptr \<Rightarrow> real" where
  "deref m p = (case p of AddrMin \<Rightarrow> min_d m | AddrMax \<Rightarrow> max_d m)"

text \<open>Line 239: \<^verbatim>\<open>val==&min?val=&max:val=&min\<close>.\<close>

definition toggle :: "target_ptr \<Rightarrow> target_ptr" where
  "toggle p = (if p = AddrMin then AddrMax else AddrMin)"

definition getPeriod :: real where
  "getPeriod = 0.1"

text \<open>
  One call of \<^verbatim>\<open>updateModule\<close>: the value returned, the members afterwards, the events.
  The result of \<^verbatim>\<open>model->calibrate\<close> is not read by the source, so \<open>calibrate_ret\<close> does
  not occur on the right-hand side.
\<close>

definition updateModule :: "ExampleModule \<Rightarrow> tick_in \<Rightarrow> bool \<times> ExampleModule \<times> event list" where
  "updateModule m t =
     (if calibrate m then
        (True, m\<lparr>calibrate := False\<rparr>,
         [Calibrate [(''finger'', PString (fingerName m))],
          SetRefAcceleration (joint m) 1000000000,
          (if fingerName m = ''ring'' \<or> fingerName m = ''little''
           then SetRefSpeed (joint m) 60
           else SetRefSpeed (joint m) 30),
          PositionMove (joint m) (deref m (val m))])
      else
        (let ev1 = GetNode (fingerName m) #
                   (case node t of
                      None \<Rightarrow> []
                    | Some n \<Rightarrow> [Report (node_name n) (sensors_data n) (node_output n)]);
             ev2 = ev1 @ [GetEncoder (joint m)]
         in if \<bar>deref m (val m) - fb t\<bar> < 5
            then (let m' = m\<lparr>val := toggle (val m)\<rparr>
                  in (True, m', ev2 @ [PositionMove (joint m') (deref m' (val m'))]))
            else (True, m, ev2)))"

definition close :: "ExampleModule \<Rightarrow> event list" where
  "close m = [DriverClose, ToProperty, PrintModelOptions]"

section \<open>The session: \<^verbatim>\<open>RFModule::runModule\<close> and \<^verbatim>\<open>main\<close>\<close>

text \<open>
  \<^verbatim>\<open>main\<close> ends with \<^verbatim>\<open>return mod.runModule(rf)\<close> (line 268). The code of
  \<^verbatim>\<open>RFModule::runModule\<close> is in the YARP library (\<^verbatim>\<open>yarp/os/RFModule.h\<close>), not in this
  repository: the source fixes the callbacks it has at hand (\<^verbatim>\<open>configure\<close>, \<^verbatim>\<open>updateModule\<close>,
  \<^verbatim>\<open>getPeriod\<close>, \<^verbatim>\<open>close\<close>), not what it does with them nor what it returns. The three
  definitions of this section that stand for it follow the specification.
\<close>

text \<open>
  Modelled from the spec: the exit status of a session whose configuration failed, which
  \<^verbatim>\<open>RFModule::runModule\<close> (not in the repository) returns to \<^verbatim>\<open>main\<close>. Section 6.1 of the
  specification: ``2 configuration error (unknown finger or model)'', ``4 joint I/O
  failure''; section 7 counts a refused property tree as a configuration error.
\<close>

definition exit_status :: "cfg_error \<Rightarrow> int" where
  "exit_status e =
     (case e of
        UnknownFinger \<Rightarrow> 2
      | UnknownModelType \<Rightarrow> 2
      | FromPropertyFailed \<Rightarrow> 2
      | DriverOpenFailed \<Rightarrow> 4)"

text \<open>
  Modelled from the spec: the periodic dispatcher inside \<^verbatim>\<open>RFModule::runModule\<close> (not in the
  repository). Section 5 of the specification: the driver is invoked once per period, ticks
  do not overlap, and a shutdown signal ends the session at the next tick boundary. The list
  of \<open>tick_in\<close> holds the answers of the outside for the ticks before the shutdown signal, so
  a session is finite. The dispatcher sees of a tick only the value \<^verbatim>\<open>updateModule\<close> returns;
  a tick that returns \<^verbatim>\<open>false\<close> ends the loop (the source returns \<^verbatim>\<open>true\<close> at line 244 on
  every path).
\<close>

fun runLoop :: "ExampleModule \<Rightarrow> tick_in list \<Rightarrow> ExampleModule \<times> event list" where
  "runLoop m [] = (m, [])"
| "runLoop m (t # ts) =
     (case updateModule m t of
        (ok, m', ev) \<Rightarrow>
          if ok then (case runLoop m' ts of (m'', evs) \<Rightarrow> (m'', ev @ evs))
          else (m', ev))"

text \<open>
  Modelled from the spec: \<^verbatim>\<open>RFModule::runModule\<close> (not in the repository). It calls
  \<^verbatim>\<open>configure\<close>; when that fails the session ends with the exit status of the failure;
  otherwise the dispatcher runs, the module is closed (section 5: the adapter is closed on
  shutdown and the model parameters are written out), and the exit status is 0 (section 6.1:
  ``0 normal shutdown'').
\<close>

definition runModule ::
  "robot_env \<Rightarrow> bool \<Rightarrow> ResourceFinder \<Rightarrow> tick_in list \<Rightarrow> int \<times> event list" where
  "runModule env cal rf ticks =
     (case configure env cal rf of
        (Inl e, ev0) \<Rightarrow> (exit_status e, ev0)
      | (Inr m, ev0) \<Rightarrow>
          (case runLoop m ticks of (m', evs) \<Rightarrow> (0, ev0 @ evs @ close m')))"

text \<open>
  \<^verbatim>\<open>main\<close>: \<open>net\<close> is the answer of \<^verbatim>\<open>yarp.checkNetwork()\<close>, \<open>args\<close> the options given on
  the command line. The constructor \<^verbatim>\<open>ExampleModule() : calibrate(true)\<close> is the \<open>True\<close>
  passed to \<open>runModule\<close>.
\<close>

definition main_rf :: "(string \<times> string) list \<Rightarrow> ResourceFinder" where
  "main_rf args =
     rf_configure
       (setDefault (setDefault (setDefault (setDefault (setDefault ResourceFinder_new
          ''name'' ''percex'') ''robot'' ''icub'') ''hand'' ''right'')
          ''modelType'' ''springy'') ''finger'' ''index'')
       args"

definition main ::
  "bool \<Rightarrow> (string \<times> string) list \<Rightarrow> robot_env \<Rightarrow> tick_in list \<Rightarrow> int \<times> event list" where
  "main net args env ticks =
     (if \<not> net then (1, [Printf ''YARP server not available!\<newline>''])
      else runModule env True (main_rf args) ticks)"

text \<open>The position targets commanded in a trace, in order.\<close>

fun moves :: "event list \<Rightarrow> (int \<times> real) list" where
  "moves [] = []"
| "moves (PositionMove j x # es) = (j, x) # moves es"
| "moves (e # es) = moves es"

text \<open>The number of calls of \<^verbatim>\<open>model->calibrate\<close> in a trace.\<close>

fun calibrations :: "event list \<Rightarrow> nat" where
  "calibrations [] = 0"
| "calibrations (Calibrate opts # es) = Suc (calibrations es)"
| "calibrations (e # es) = calibrations es"

section \<open>Concrete surroundings\<close>

text \<open>
  A robot whose driver and model accept every option and whose joints all have the limits
  (0, 90), one whose control board exists for the two arms of \<^verbatim>\<open>icub\<close> only, and one whose
  adapter reports the limits in reversed order, (90, 0).
\<close>

definition stub_env :: robot_env where
  "stub_env = \<lparr>driver_open = (\<lambda>opts. True),
                getLimits = (\<lambda>j. (0, 90)),
                fromProperty = (\<lambda>k opts. True)\<rparr>"

definition icub_env :: robot_env where
  "icub_env = \<lparr>driver_open = (\<lambda>opts. map_of opts ''remote'' = Some (PString ''/icub/left_arm'')
                                      \<or> map_of opts ''remote'' = Some (PString ''/icub/right_arm'')),
                getLimits = (\<lambda>j. (0, 90)),
                fromProperty = (\<lambda>k opts. True)\<rparr>"


text \<open>
  Ticks: one whose calibration reports failure, one with no node and the encoder at a given
  value, one with a node to report.
\<close>

definition tick_cal_fails :: tick_in where
  "tick_cal_fails = \<lparr>calibrate_ret = False, node = None, fb = 40\<rparr>"

definition tick_at :: "real \<Rightarrow> tick_in" where
  "tick_at x = \<lparr>calibrate_ret = True, node = None, fb = x\<rparr>"

definition tick_node_at :: "real \<Rightarrow> tick_in" where
  "tick_node_at x =
     \<lparr>calibrate_ret = True,
      node = Some \<lparr>node_name = ''index'', sensors_data = ''1.0 2.0'', node_output = ''0.5''\<rparr>,
      fb = x\<rparr>"

text \<open>
  The module and the events \<^verbatim>\<open>configure\<close> produces on \<open>stub_env\<close> with every option at its
  default, and the same module once it scans, heading for the lower and for the upper bound.
\<close>

definition index_module :: ExampleModule where
  "index_module = \<lparr>model = SpringyFingersModel, calibrate = True, fingerName = ''index'',
                    min_d = 9, max_d = 81, val = AddrMin, joint = 12\<rparr>"

definition index_configure_events :: "event list" where
  "index_configure_events =
     [DriverOpen (driverOpt ''percex'' ''icub'' ''right''),
      GetLimits 12,
      PrintConfiguringOptions (model_options ''percex'' ''icub'' ''right'' ''springy''),
      NewModel SpringyFingersModel,
      FromProperty SpringyFingersModel (model_options ''percex'' ''icub'' ''right'' ''springy'')]"

definition index_scanning :: ExampleModule where
  "index_scanning = index_module\<lparr>calibrate := False\<rparr>"

definition index_scanning_hi :: ExampleModule where
  "index_scanning_hi = index_module\<lparr>calibrate := False, val := AddrMax\<rparr>"

section \<open>Facts about the operations\<close>

lemma moves_append: "moves (a @ b) = moves a @ moves b"
  by (induction a rule: moves.induct) auto

lemma calibrations_append: "calibrations (a @ b) = calibrations a + calibrations b"
  by (induction a rule: calibrations.induct) auto

lemma configure_Inr:
  assumes "configure env cal rf = (Inr m, ev0)"
  shows "finger_joint (find_asString rf ''finger'') = Some (joint m)"
    and "new_model (find_asString rf ''modelType'') = Some (model m)"
    and "calibrate m = cal"
    and "fingerName m = find_asString rf ''finger''"
    and "min_d m = fst (getLimits env (joint m))
           + 0.1 * (snd (getLimits env (joint m)) - fst (getLimits env (joint m)))"
    and "max_d m = snd (getLimits env (joint m))
           - 0.1 * (snd (getLimits env (joint m)) - fst (getLimits env (joint m)))"
    and "val m = AddrMin"
    and "moves ev0 = []"
    and "calibrations ev0 = 0"
  using assms
  by (auto simp: configure_def Let_def split: option.splits if_splits prod.splits)

lemma configure_Inl:
  assumes "configure env cal rf = (Inl e, ev0)"
  shows "moves ev0 = []" and "calibrations ev0 = 0"
  using assms
  by (auto simp: configure_def Let_def split: option.splits if_splits prod.splits)

lemma updateModule_first:
  "calibrate m \<Longrightarrow> updateModule m t =
     (True, m\<lparr>calibrate := False\<rparr>,
      [Calibrate [(''finger'', PString (fingerName m))],
       SetRefAcceleration (joint m) 1000000000,
       SetRefSpeed (joint m) (if fingerName m = ''ring'' \<or> fingerName m = ''little'' then 60 else 30),
       PositionMove (joint m) (deref m (val m))])"
  by (simp add: updateModule_def)

lemma deref_val_update [simp]: "deref (m\<lparr>val := p\<rparr>) q = deref m q"
  by (simp add: deref_def split: target_ptr.splits)

lemma deref_calibrate_update [simp]: "deref (m\<lparr>calibrate := b\<rparr>) q = deref m q"
  by (simp add: deref_def split: target_ptr.splits)

lemma updateModule_scan:
  "\<not> calibrate m \<Longrightarrow> updateModule m t =
     (True,
      (if \<bar>deref m (val m) - fb t\<bar> < 5 then m\<lparr>val := toggle (val m)\<rparr> else m),
      GetNode (fingerName m) #
      (case node t of None \<Rightarrow> []
       | Some n \<Rightarrow> [Report (node_name n) (sensors_data n) (node_output n)]) @
      GetEncoder (joint m) #
      (if \<bar>deref m (val m) - fb t\<bar> < 5
       then [PositionMove (joint m) (deref m (toggle (val m)))] else []))"
  by (simp add: updateModule_def Let_def)

lemma moves_report [simp]:
  "moves (case n of None \<Rightarrow> [] | Some r \<Rightarrow> [Report (node_name r) (sensors_data r) (node_output r)])
     = []"
  by (cases n) simp_all

lemma calibrations_report [simp]:
  "calibrations (case n of None \<Rightarrow> []
                 | Some r \<Rightarrow> [Report (node_name r) (sensors_data r) (node_output r)]) = 0"
  by (cases n) simp_all

lemma runLoop_Cons:
  "runLoop m (t # ts) =
     (fst (runLoop (fst (snd (updateModule m t))) ts),
      snd (snd (updateModule m t)) @ snd (runLoop (fst (snd (updateModule m t))) ts))"
  by (cases "calibrate m") (simp_all add: updateModule_first updateModule_scan split: prod.splits)

declare runLoop.simps(2) [simp del]

lemma runLoop_moves_nth:
  "i < length (moves (snd (runLoop m ts))) \<Longrightarrow>
   moves (snd (runLoop m ts)) ! i =
     (joint m, deref m ((toggle ^^ i) (if calibrate m then val m else toggle (val m))))"
proof (induction ts arbitrary: m i)
  case Nil
  then show ?case by simp
next
  case (Cons t ts)
  show ?case
  proof (cases "calibrate m")
    case True
    let ?m' = "m\<lparr>calibrate := False\<rparr>"
    have mv: "moves (snd (runLoop m (t # ts))) =
                (joint m, deref m (val m)) # moves (snd (runLoop ?m' ts))"
      using True by (simp add: runLoop_Cons updateModule_first moves_append)
    show ?thesis
    proof (cases i)
      case 0
      then show ?thesis using mv True by simp
    next
      case (Suc k)
      then have "k < length (moves (snd (runLoop ?m' ts)))"
        using Cons.prems mv by simp
      from Cons.IH[OF this] show ?thesis
        using mv Suc True by (simp add: funpow_swap1)
    qed
  next
    case False
    show ?thesis
    proof (cases "\<bar>deref m (val m) - fb t\<bar> < 5")
      case near: True
      let ?m' = "m\<lparr>val := toggle (val m)\<rparr>"
      have mv: "moves (snd (runLoop m (t # ts))) =
                  (joint m, deref m (toggle (val m))) # moves (snd (runLoop ?m' ts))"
        using False near by (simp add: runLoop_Cons updateModule_scan moves_append)
      show ?thesis
      proof (cases i)
        case 0
        then show ?thesis using mv False by simp
      next
        case (Suc k)
        then have "k < length (moves (snd (runLoop ?m' ts)))"
          using Cons.prems mv by simp
        from Cons.IH[OF this] show ?thesis
          using mv Suc False by (simp add: funpow_swap1)
      qed
    next
      case far: False
      have mv: "moves (snd (runLoop m (t # ts))) = moves (snd (runLoop m ts))"
        using False far by (simp add: runLoop_Cons updateModule_scan moves_append)
      then show ?thesis using Cons.IH[of i m] Cons.prems by simp
    qed
  qed
qed

lemma toggle_funpow: "(toggle ^^ i) AddrMin = (if even i then AddrMin else AddrMax)"
  by (induction i) (simp_all add: toggle_def)


lemma runLoop_scanning_calibrations:
  "\<not> calibrate m \<Longrightarrow> calibrations (snd (runLoop m ts)) = 0 \<and> \<not> calibrate (fst (runLoop m ts))"
  by (induction ts arbitrary: m)
     (simp_all add: runLoop_Cons updateModule_scan calibrations_append)

lemma runLoop_calibrations:
  "calibrations (snd (runLoop m ts)) = (if calibrate m \<and> ts \<noteq> [] then 1 else 0)"
proof (cases ts)
  case Nil
  then show ?thesis by simp
next
  case (Cons t ts')
  show ?thesis
  proof (cases "calibrate m")
    case True
    then show ?thesis
      using Cons runLoop_scanning_calibrations[of "m\<lparr>calibrate := False\<rparr>" ts']
      by (simp add: runLoop_Cons updateModule_first calibrations_append)
  next
    case False
    then show ?thesis using runLoop_scanning_calibrations[of m ts] by simp
  qed
qed

lemmas main_defs = main_def main_rf_def rf_configure_def setDefault_def ResourceFinder_new_def
  find_asString_def

lemmas stub_session_defs = main_defs runModule_def exit_status_def configure_def finger_joint_def new_model_def
  stub_env_def Let_def runLoop_Cons updateModule_def tick_cal_fails_def tick_at_def
  tick_node_at_def deref_def toggle_def close_def driverOpt_def model_options_def genOpt_def

text \<open>The concrete configurations used below, evaluated once.\<close>

lemma index_configure:
  "configure stub_env True (main_rf []) = (Inr index_module, index_configure_events)"
  by (simp add: main_defs configure_def finger_joint_def new_model_def stub_env_def Let_def
      index_module_def index_configure_events_def)

lemma finger_joint_None:
  "finger_joint f = None \<longleftrightarrow> f \<notin> {''thumb'', ''index'', ''middle'', ''ring'', ''little''}"
  by (simp add: finger_joint_def)

lemma ring_configure:
  "configure stub_env True (main_rf [(''finger'', ''ring'')]) =
     (Inr (index_module\<lparr>fingerName := ''ring'', joint := 15\<rparr>),
      [DriverOpen (driverOpt ''percex'' ''icub'' ''right''), GetLimits 15,
       PrintConfiguringOptions (model_options ''percex'' ''icub'' ''right'' ''springy''),
       NewModel SpringyFingersModel,
       FromProperty SpringyFingersModel (model_options ''percex'' ''icub'' ''right'' ''springy'')])"
  by (simp add: main_defs configure_def finger_joint_def new_model_def stub_env_def Let_def
      index_module_def)

lemma middle_configure:
  "configure stub_env True (main_rf [(''finger'', ''middle'')]) =
     (Inr (index_module\<lparr>fingerName := ''middle'', joint := 14\<rparr>),
      [DriverOpen (driverOpt ''percex'' ''icub'' ''right''), GetLimits 14,
       PrintConfiguringOptions (model_options ''percex'' ''icub'' ''right'' ''springy''),
       NewModel SpringyFingersModel,
       FromProperty SpringyFingersModel (model_options ''percex'' ''icub'' ''right'' ''springy'')])"
  by (simp add: main_defs configure_def finger_joint_def new_model_def stub_env_def Let_def
      index_module_def)

lemma icub_configure_foo:
  "configure icub_env True (main_rf [(''hand'', ''foo'')])
     = (Inl DriverOpenFailed, [DriverOpen (driverOpt ''percex'' ''icub'' ''foo'')])"
  by (simp add: main_defs configure_def finger_joint_def new_model_def icub_env_def Let_def
      driverOpt_def)

lemma icub_configure_left:
  "fst (configure icub_env True (main_rf [(''hand'', ''left'')])) = Inr index_module"
  by (simp add: main_defs configure_def finger_joint_def new_model_def icub_env_def Let_def
      driverOpt_def index_module_def)

section \<open>The claims\<close>




text \<open>
  Claim C2. For limits \<open>(mn, mx)\<close>, \<^verbatim>\<open>configure\<close> leaves \<open>mn + 0.1 * (mx - mn)\<close> in
  \<^verbatim>\<open>min\<close>, \<open>mx - 0.1 * (mx - mn)\<close> in \<^verbatim>\<open>max\<close>, and \<^verbatim>\<open>val\<close> at \<^verbatim>\<open>&min\<close>. With the limits
  (0, 90) the two bounds are 9 and 81, the first tick commands the target 9, and a second tick
  whose encoder reading is within 5 of 9 commands the target 81.
\<close>

theorem C2_safe_range:
  "(configure env cal rf = (Inr m, ev0) \<and> getLimits env (joint m) = (mn, mx) \<longrightarrow>
      min_d m = mn + 0.1 * (mx - mn) \<and> max_d m = mx - 0.1 * (mx - mn) \<and> val m = AddrMin)
   \<and> (configure env' True rf' = (Inr m', ev0') \<and> getLimits env' (joint m') = (0, 90) \<longrightarrow>
      min_d m' = 9 \<and> max_d m' = 81
      \<and> moves (snd (snd (updateModule m' t0))) = [(joint m', 9)]
      \<and> (\<bar>9 - fb t1\<bar> < 5 \<longrightarrow>
           moves (snd (snd (updateModule (fst (snd (updateModule m' t0))) t1))) = [(joint m', 81)]))"
proof (intro conjI impI)
  assume a: "configure env cal rf = (Inr m, ev0) \<and> getLimits env (joint m) = (mn, mx)"
  then have c: "configure env cal rf = (Inr m, ev0)" and l: "getLimits env (joint m) = (mn, mx)"
    by simp_all
  note f = configure_Inr[OF c]
  show "min_d m = mn + 0.1 * (mx - mn)" using f(5) l by simp
  show "max_d m = mx - 0.1 * (mx - mn)" using f(6) l by simp
  show "val m = AddrMin" by (rule f(7))
next
  assume a: "configure env' True rf' = (Inr m', ev0') \<and> getLimits env' (joint m') = (0, 90)"
  then have c: "configure env' True rf' = (Inr m', ev0')"
    and l: "getLimits env' (joint m') = (0, 90)"
    by simp_all
  note f = configure_Inr[OF c]
  show lo: "min_d m' = 9" using f(5) l by simp
  show hi: "max_d m' = 81" using f(6) l by simp
  have cal: "calibrate m'" using f(3) by simp
  show first: "moves (snd (snd (updateModule m' t0))) = [(joint m', 9)]"
    using cal f(7) lo by (simp add: updateModule_first deref_def)
  assume near: "\<bar>9 - fb t1\<bar> < 5"
  have st: "fst (snd (updateModule m' t0)) = m'\<lparr>calibrate := False\<rparr>"
    using cal by (simp add: updateModule_first)
  show "moves (snd (snd (updateModule (fst (snd (updateModule m' t0))) t1))) = [(joint m', 81)]"
    using near f(7) lo hi unfolding st
    by (simp add: updateModule_scan deref_def toggle_def moves_append)
qed

theorem C2_safe_range_witness:
  "configure stub_env True (main_rf [(''finger'', ''index''), (''modelType'', ''tactile''),
       (''hand'', ''right'')])
     = (Inr \<lparr>model = TactileFingersModel, calibrate = True, fingerName = ''index'',
             min_d = 9, max_d = 81, val = AddrMin, joint = 12\<rparr>,
        [DriverOpen (driverOpt ''percex'' ''icub'' ''right''), GetLimits 12,
         PrintConfiguringOptions (model_options ''percex'' ''icub'' ''right'' ''tactile''),
         NewModel TactileFingersModel,
         FromProperty TactileFingersModel (model_options ''percex'' ''icub'' ''right'' ''tactile'')])
   \<and> getLimits stub_env 12 = (0, 90)
   \<and> \<bar>9 - fb (tick_at 7)\<bar> < 5
   \<and> moves (snd (snd (updateModule
        \<lparr>model = TactileFingersModel, calibrate = True, fingerName = ''index'',
             min_d = 9, max_d = 81, val = AddrMin, joint = 12\<rparr> (tick_at 40)))) = [(12, 9)]
   \<and> moves (snd (snd (updateModule (fst (snd (updateModule
        \<lparr>model = TactileFingersModel, calibrate = True, fingerName = ''index'',
             min_d = 9, max_d = 81, val = AddrMin, joint = 12\<rparr> (tick_at 40)))) (tick_at 7))))
       = [(12, 81)]"
proof -
  let ?rf = "main_rf [(''finger'', ''index''), (''modelType'', ''tactile''), (''hand'', ''right'')]"
  let ?m = "\<lparr>model = TactileFingersModel, calibrate = True, fingerName = ''index'',
             min_d = 9, max_d = 81, val = AddrMin, joint = 12\<rparr>"
  let ?ev = "[DriverOpen (driverOpt ''percex'' ''icub'' ''right''), GetLimits 12,
         PrintConfiguringOptions (model_options ''percex'' ''icub'' ''right'' ''tactile''),
         NewModel TactileFingersModel,
         FromProperty TactileFingersModel (model_options ''percex'' ''icub'' ''right'' ''tactile'')]"
  have c: "configure stub_env True ?rf = (Inr ?m, ?ev)"
    by (simp add: main_defs configure_def finger_joint_def new_model_def stub_env_def Let_def)
  have l: "getLimits stub_env (joint ?m) = (0, 90)" by (simp add: stub_env_def)
  have n: "\<bar>9 - fb (tick_at 7)\<bar> < 5" by (simp add: tick_at_def)
  from C2_safe_range[of stub_env True ?rf ?m ?ev 0 90 stub_env ?rf ?m ?ev "tick_at 40" "tick_at 7"]
    c l n
  show ?thesis by simp
qed

text \<open>
  Claim C3. On a scanning tick whose encoder reading \<open>fb\<close> satisfies
  \<open>\<bar>*val - fb\<bar> < 5\<close>, \<^verbatim>\<open>val\<close> is toggled and \<^verbatim>\<open>positionMove\<close> is the last call of the tick, with
  the new target; on any other scanning tick nothing moves and \<^verbatim>\<open>val\<close> stays. The toggle of line
  239 sends \<^verbatim>\<open>&min\<close> to \<^verbatim>\<open>&max\<close> and \<^verbatim>\<open>&max\<close> to \<^verbatim>\<open>&min\<close>. Over any run from a configured
  module, the commanded targets alternate: the move number \<open>i\<close> (from 0) goes to the lower
  bound when \<open>i\<close> is even and to the upper bound when \<open>i\<close> is odd.
\<close>

theorem C3_flip_alternates:
  "(\<not> calibrate m \<and> \<bar>deref m (val m) - fb t\<bar> < 5 \<longrightarrow>
      fst (snd (updateModule m t)) = m\<lparr>val := toggle (val m)\<rparr>
      \<and> moves (snd (snd (updateModule m t))) = [(joint m, deref m (toggle (val m)))]
      \<and> last (snd (snd (updateModule m t))) = PositionMove (joint m) (deref m (toggle (val m))))
   \<and> (\<not> calibrate m \<and> \<not> \<bar>deref m (val m) - fb t\<bar> < 5 \<longrightarrow>
      fst (snd (updateModule m t)) = m \<and> moves (snd (snd (updateModule m t))) = [])
   \<and> toggle AddrMin = AddrMax \<and> toggle AddrMax = AddrMin
   \<and> deref m (toggle AddrMin) = max_d m \<and> deref m (toggle AddrMax) = min_d m
   \<and> (configure env True rf = (Inr m0, ev0) \<and> i < length (moves (snd (runLoop m0 ts))) \<longrightarrow>
        moves (snd (runLoop m0 ts)) ! i = (joint m0, if even i then min_d m0 else max_d m0))"
proof (intro conjI impI)
  assume a: "\<not> calibrate m \<and> \<bar>deref m (val m) - fb t\<bar> < 5"
  then show "fst (snd (updateModule m t)) = m\<lparr>val := toggle (val m)\<rparr>"
    by (simp add: updateModule_scan)
  from a show "moves (snd (snd (updateModule m t))) = [(joint m, deref m (toggle (val m)))]"
    by (simp add: updateModule_scan moves_append)
  from a show "last (snd (snd (updateModule m t))) = PositionMove (joint m) (deref m (toggle (val m)))"
    by (simp add: updateModule_scan)
next
  assume a: "\<not> calibrate m \<and> \<not> \<bar>deref m (val m) - fb t\<bar> < 5"
  then show "fst (snd (updateModule m t)) = m"
    by (simp add: updateModule_scan)
  from a show "moves (snd (snd (updateModule m t))) = []"
    by (simp add: updateModule_scan moves_append)
next
  show "toggle AddrMin = AddrMax" "toggle AddrMax = AddrMin"
    by (simp_all add: toggle_def)
  show "deref m (toggle AddrMin) = max_d m" "deref m (toggle AddrMax) = min_d m"
    by (simp_all add: toggle_def deref_def)
next
  assume a: "configure env True rf = (Inr m0, ev0) \<and> i < length (moves (snd (runLoop m0 ts)))"
  then have c: "configure env True rf = (Inr m0, ev0)"
    and i: "i < length (moves (snd (runLoop m0 ts)))" by simp_all
  note f = configure_Inr[OF c]
  from runLoop_moves_nth[OF i] f(3) f(7)
  show "moves (snd (runLoop m0 ts)) ! i = (joint m0, if even i then min_d m0 else max_d m0)"
    by (simp add: toggle_funpow deref_def)
qed

theorem C3_flip_alternates_witness:
  "\<not> calibrate index_scanning
   \<and> \<bar>deref index_scanning (val index_scanning) - fb (tick_at 7)\<bar> < 5
   \<and> fst (snd (updateModule index_scanning (tick_at 7))) = index_scanning\<lparr>val := AddrMax\<rparr>
   \<and> moves (snd (snd (updateModule index_scanning (tick_at 7)))) = [(12, 81)]
   \<and> \<not> \<bar>deref index_scanning (val index_scanning) - fb (tick_at 40)\<bar> < 5
   \<and> fst (snd (updateModule index_scanning (tick_at 40))) = index_scanning
   \<and> moves (snd (snd (updateModule index_scanning (tick_at 40)))) = []
   \<and> configure stub_env True (main_rf []) = (Inr index_module, index_configure_events)
   \<and> moves (snd (runLoop index_module [tick_cal_fails, tick_at 7, tick_at 40, tick_at 80]))
        = [(12, 9), (12, 81), (12, 9)]
   \<and> moves (snd (runLoop index_module [tick_cal_fails, tick_at 7, tick_at 40, tick_at 80])) ! 1
        = (joint index_module, if even (1::nat) then min_d index_module else max_d index_module)"
proof -
  have s: "\<not> calibrate index_scanning" by (simp add: index_scanning_def)
  have n: "\<bar>deref index_scanning (val index_scanning) - fb (tick_at 7)\<bar> < 5"
    by (simp add: index_scanning_def index_module_def deref_def tick_at_def)
  have f: "\<not> \<bar>deref index_scanning (val index_scanning) - fb (tick_at 40)\<bar> < 5"
    by (simp add: index_scanning_def index_module_def deref_def tick_at_def)
  have mv: "moves (snd (runLoop index_module [tick_cal_fails, tick_at 7, tick_at 40, tick_at 80]))
        = [(12, 9), (12, 81), (12, 9)]"
    by (simp add: runLoop_Cons updateModule_def index_module_def tick_cal_fails_def tick_at_def
        deref_def toggle_def Let_def)
  have i: "1 < length (moves (snd (runLoop index_module
             [tick_cal_fails, tick_at 7, tick_at 40, tick_at 80])))"
    by (simp add: mv)
  have v: "val index_scanning = AddrMin" "joint index_scanning = 12"
    "deref index_scanning AddrMax = 81"
    by (simp_all add: index_scanning_def index_module_def deref_def)
  from C3_flip_alternates[of index_scanning "tick_at 7" stub_env "main_rf []" index_module
      index_configure_events 1 "[tick_cal_fails, tick_at 7, tick_at 40, tick_at 80]"]
    C3_flip_alternates[of index_scanning "tick_at 40" stub_env "main_rf []" index_module
      index_configure_events 1 "[tick_cal_fails, tick_at 7, tick_at 40, tick_at 80]"]
    s n f mv i v index_configure
  show ?thesis by (simp add: toggle_def)
qed

text \<open>
  Claim C4, as amended. The source does not read what \<^verbatim>\<open>model->calibrate\<close> returns: a tick,
  and with it the whole run of \<open>main\<close> (the calls made and the exit status), is the same
  whether the call reports success or failure. The first tick of a configured module calls
  \<^verbatim>\<open>model->calibrate\<close>, sets the reference acceleration to 1e9 and the reference speed to 60
  (ring, little) or 30, commands the move to the lower bound, clears the \<^verbatim>\<open>calibrate\<close> flag and
  returns \<^verbatim>\<open>true\<close>; the dispatcher then goes on with the remaining ticks, which scan.
\<close>

theorem C4_calibrate_result_ignored:
  "updateModule m (t\<lparr>calibrate_ret := b\<rparr>) = updateModule m t
   \<and> main net args env (t\<lparr>calibrate_ret := b\<rparr> # ts) = main net args env (t # ts)
   \<and> (configure env' True rf = (Inr m0, ev0) \<longrightarrow>
        updateModule m0 t0 =
          (True, m0\<lparr>calibrate := False\<rparr>,
           [Calibrate [(''finger'', PString (fingerName m0))],
            SetRefAcceleration (joint m0) 1000000000,
            SetRefSpeed (joint m0)
              (if fingerName m0 = ''ring'' \<or> fingerName m0 = ''little'' then 60 else 30),
            PositionMove (joint m0) (min_d m0)])
        \<and> runLoop m0 (t0 # ts0) =
            (fst (runLoop (m0\<lparr>calibrate := False\<rparr>) ts0),
             snd (snd (updateModule m0 t0)) @ snd (runLoop (m0\<lparr>calibrate := False\<rparr>) ts0))
        \<and> calibrations (snd (runLoop (m0\<lparr>calibrate := False\<rparr>) ts0)) = 0)"
proof (intro conjI impI)
  show u: "updateModule m (t\<lparr>calibrate_ret := b\<rparr>) = updateModule m t" for m
    by (simp add: updateModule_def)
  have l: "runLoop m' (t\<lparr>calibrate_ret := b\<rparr> # ts) = runLoop m' (t # ts)" for m'
    by (simp add: runLoop_Cons u)
  show "main net args env (t\<lparr>calibrate_ret := b\<rparr> # ts) = main net args env (t # ts)"
    by (simp add: main_def runModule_def l split: prod.splits sum.splits)
next
  assume c: "configure env' True rf = (Inr m0, ev0)"
  note f = configure_Inr[OF c]
  have cal: "calibrate m0" using f(3) by simp
  show first: "updateModule m0 t0 =
          (True, m0\<lparr>calibrate := False\<rparr>,
           [Calibrate [(''finger'', PString (fingerName m0))],
            SetRefAcceleration (joint m0) 1000000000,
            SetRefSpeed (joint m0)
              (if fingerName m0 = ''ring'' \<or> fingerName m0 = ''little'' then 60 else 30),
            PositionMove (joint m0) (min_d m0)])"
    using cal f(7) by (simp add: updateModule_first deref_def)
  show "runLoop m0 (t0 # ts0) =
            (fst (runLoop (m0\<lparr>calibrate := False\<rparr>) ts0),
             snd (snd (updateModule m0 t0)) @ snd (runLoop (m0\<lparr>calibrate := False\<rparr>) ts0))"
    by (simp add: runLoop_Cons first)
  show "calibrations (snd (runLoop (m0\<lparr>calibrate := False\<rparr>) ts0)) = 0"
    using runLoop_scanning_calibrations[of "m0\<lparr>calibrate := False\<rparr>" ts0] by simp
qed

theorem C4_calibrate_result_ignored_witness:
  "configure stub_env True (main_rf []) = (Inr index_module, index_configure_events)
   \<and> tick_cal_fails\<lparr>calibrate_ret := True\<rparr> = tick_at 40
   \<and> updateModule index_module tick_cal_fails = updateModule index_module (tick_at 40)
   \<and> main True [] stub_env [tick_cal_fails, tick_at 7] = main True [] stub_env [tick_at 40, tick_at 7]
   \<and> updateModule index_module tick_cal_fails =
       (True, index_scanning,
        [Calibrate [(''finger'', PString ''index'')], SetRefAcceleration 12 1000000000,
         SetRefSpeed 12 30, PositionMove 12 9])
   \<and> snd (runLoop index_module [tick_cal_fails, tick_at 7]) =
       [Calibrate [(''finger'', PString ''index'')], SetRefAcceleration 12 1000000000,
        SetRefSpeed 12 30, PositionMove 12 9]
       @ snd (runLoop index_scanning [tick_at 7])"
proof -
  have e: "tick_cal_fails\<lparr>calibrate_ret := True\<rparr> = tick_at 40"
    by (simp add: tick_cal_fails_def tick_at_def)
  have v: "joint index_module = 12" "min_d index_module = 9" "fingerName index_module = ''index''"
    "index_module\<lparr>calibrate := False\<rparr> = index_scanning"
    by (simp_all add: index_module_def index_scanning_def)
  from C4_calibrate_result_ignored[where m = index_module and t = tick_cal_fails and b = True
      and net = True and args = "[]" and env = stub_env and ts = "[tick_at 7]"
      and env' = stub_env and rf = "main_rf []" and ?m0.0 = index_module
      and ?ev0.0 = index_configure_events and ?t0.0 = tick_cal_fails and ?ts0.0 = "[tick_at 7]"]
    e v index_configure
  show ?thesis by simp
qed

text \<open>
  Claim C4 as stated fails: in this session the calibration of the first tick reports
  failure; the second tick scans and flips as usual, the run is the run of the session whose
  calibration succeeds, and the exit status is that of a normal shutdown, not 3.
\<close>

theorem C4_counterexample:
  "calibrate_ret tick_cal_fails = False
   \<and> calibrate_ret (tick_at 40) = True
   \<and> main True [] stub_env [tick_cal_fails, tick_at 7] = main True [] stub_env [tick_at 40, tick_at 7]
   \<and> main True [] stub_env [tick_cal_fails, tick_at 7] =
       (0, index_configure_events @
           [Calibrate [(''finger'', PString ''index'')],
            SetRefAcceleration 12 1000000000, SetRefSpeed 12 30, PositionMove 12 9,
            GetNode ''index'', GetEncoder 12, PositionMove 12 81,
            DriverClose, ToProperty, PrintModelOptions])
   \<and> fst (main True [] stub_env [tick_cal_fails, tick_at 7]) \<noteq> 3"
  by (simp add: stub_session_defs index_configure_events_def)

text \<open>
  Claim C5. When the finger option is none of thumb, index, middle, ring and little,
  \<^verbatim>\<open>configure\<close> prints \<^verbatim>\<open>unknown finger!\<close> and returns \<^verbatim>\<open>false\<close> before the driver is touched:
  the whole trace of the program is that one line, so no \<^verbatim>\<open>driver.open\<close> occurs, and the
  session ends with exit status 2. The exit status is the one \<open>exit_status\<close> gives, after the
  specification, to a failed configuration; the source itself only returns what
  \<^verbatim>\<open>runModule\<close> returns.
\<close>

theorem C5_unknown_finger_no_open:
  assumes "find_asString (main_rf args) ''finger''
             \<notin> {''thumb'', ''index'', ''middle'', ''ring'', ''little''}"
  shows "configure env cal (main_rf args) = (Inl UnknownFinger, [Printf ''unknown finger!\<newline>''])
         \<and> main True args env ticks = (2, [Printf ''unknown finger!\<newline>''])
         \<and> DriverOpen p \<notin> set (snd (main True args env ticks))"
proof -
  have n: "finger_joint (find_asString (main_rf args) ''finger'') = None"
    using assms by (simp add: finger_joint_None)
  have c: "configure env cal' (main_rf args) = (Inl UnknownFinger, [Printf ''unknown finger!\<newline>''])"
    for cal'
    using n by (simp add: configure_def)
  then show ?thesis by (simp add: main_def runModule_def exit_status_def)
qed

theorem C5_unknown_finger_no_open_witness:
  "find_asString (main_rf [(''finger'', ''pinky'')]) ''finger''
      \<notin> {''thumb'', ''index'', ''middle'', ''ring'', ''little''}
   \<and> configure stub_env True (main_rf [(''finger'', ''pinky'')])
       = (Inl UnknownFinger, [Printf ''unknown finger!\<newline>''])
   \<and> main True [(''finger'', ''pinky'')] stub_env [tick_at 0]
       = (2, [Printf ''unknown finger!\<newline>''])
   \<and> DriverOpen (driverOpt ''percex'' ''icub'' ''right'')
       \<notin> set (snd (main True [(''finger'', ''pinky'')] stub_env [tick_at 0]))"
proof -
  have h: "find_asString (main_rf [(''finger'', ''pinky'')]) ''finger''
      \<notin> {''thumb'', ''index'', ''middle'', ''ring'', ''little''}"
    by (simp add: main_defs)
  from C5_unknown_finger_no_open[OF h, of stub_env True "[tick_at 0]"
      "driverOpt ''percex'' ''icub'' ''right''"] h
  show ?thesis by simp
qed

text \<open>
  Claim C6. The joint of each recognised finger: thumb 10, index 12, middle 14, ring 15,
  little 15. A module that \<^verbatim>\<open>configure\<close> accepted has one of the five names as its finger and
  the joint of this table.
\<close>

theorem C6_finger_joint_table:
  "finger_joint ''thumb'' = Some 10 \<and> finger_joint ''index'' = Some 12
   \<and> finger_joint ''middle'' = Some 14 \<and> finger_joint ''ring'' = Some 15
   \<and> finger_joint ''little'' = Some 15
   \<and> (configure env cal rf = (Inr m, ev0) \<longrightarrow>
        fingerName m = find_asString rf ''finger''
        \<and> fingerName m \<in> {''thumb'', ''index'', ''middle'', ''ring'', ''little''}
        \<and> joint m = (if fingerName m = ''thumb'' then 10
                      else if fingerName m = ''index'' then 12
                      else if fingerName m = ''middle'' then 14
                      else 15))"
proof (intro conjI impI)
  assume c: "configure env cal rf = (Inr m, ev0)"
  note f = configure_Inr[OF c]
  show "fingerName m = find_asString rf ''finger''" by (rule f(4))
  have j: "finger_joint (fingerName m) = Some (joint m)" using f(1) f(4) by simp
  then show "fingerName m \<in> {''thumb'', ''index'', ''middle'', ''ring'', ''little''}"
    using finger_joint_None[of "fingerName m"] by auto
  from j show "joint m = (if fingerName m = ''thumb'' then 10
                      else if fingerName m = ''index'' then 12
                      else if fingerName m = ''middle'' then 14
                      else 15)"
    by (auto simp: finger_joint_def split: if_splits)
qed (simp_all add: finger_joint_def)

theorem C6_finger_joint_table_witness:
  "configure stub_env True (main_rf []) = (Inr index_module, index_configure_events)
   \<and> fingerName index_module = ''index'' \<and> joint index_module = 12"
proof -
  from C6_finger_joint_table[of stub_env True "main_rf []" index_module index_configure_events]
    index_configure
  have "fingerName index_module = find_asString (main_rf []) ''finger''"
    and "joint index_module = (if fingerName index_module = ''thumb'' then 10
                      else if fingerName index_module = ''index'' then 12
                      else if fingerName index_module = ''middle'' then 14
                      else 15)"
    by simp_all
  then show ?thesis using index_configure by (simp add: main_defs)
qed

text \<open>
  Claim C7. The first tick of a configured module calls, in this order, \<^verbatim>\<open>model->calibrate\<close>,
  \<^verbatim>\<open>setRefAcceleration\<close> with 1e9, \<^verbatim>\<open>setRefSpeed\<close> with 60 when the finger is ring or little and
  with 30 otherwise, and \<^verbatim>\<open>positionMove\<close> to the lower bound. With \<^verbatim>\<open>--finger ring\<close> the joint
  is 15 and the speed 60; with \<^verbatim>\<open>--finger middle\<close> the joint is 14 and the speed 30.
\<close>

theorem C7_first_tick_speed:
  "(configure env True rf = (Inr m, ev0) \<longrightarrow>
      snd (snd (updateModule m t)) =
        [Calibrate [(''finger'', PString (fingerName m))],
         SetRefAcceleration (joint m) 1000000000,
         SetRefSpeed (joint m)
           (if find_asString rf ''finger'' = ''ring'' \<or> find_asString rf ''finger'' = ''little''
            then 60 else 30),
         PositionMove (joint m) (min_d m)])
   \<and> (configure env1 True rf1 = (Inr m1, ev1) \<and> find_asString rf1 ''finger'' = ''ring'' \<longrightarrow>
        joint m1 = 15
        \<and> snd (snd (updateModule m1 t1)) =
            [Calibrate [(''finger'', PString ''ring'')], SetRefAcceleration 15 1000000000,
             SetRefSpeed 15 60, PositionMove 15 (min_d m1)])
   \<and> (configure env2 True rf2 = (Inr m2, ev2) \<and> find_asString rf2 ''finger'' = ''middle'' \<longrightarrow>
        joint m2 = 14
        \<and> snd (snd (updateModule m2 t2)) =
            [Calibrate [(''finger'', PString ''middle'')], SetRefAcceleration 14 1000000000,
             SetRefSpeed 14 30, PositionMove 14 (min_d m2)])"
proof (intro conjI impI)
  assume c: "configure env True rf = (Inr m, ev0)"
  note f = configure_Inr[OF c]
  show "snd (snd (updateModule m t)) =
        [Calibrate [(''finger'', PString (fingerName m))],
         SetRefAcceleration (joint m) 1000000000,
         SetRefSpeed (joint m)
           (if find_asString rf ''finger'' = ''ring'' \<or> find_asString rf ''finger'' = ''little''
            then 60 else 30),
         PositionMove (joint m) (min_d m)]"
    using f(3) f(4) f(7) by (simp add: updateModule_first deref_def)
next
  assume a: "configure env1 True rf1 = (Inr m1, ev1) \<and> find_asString rf1 ''finger'' = ''ring''"
  then have c: "configure env1 True rf1 = (Inr m1, ev1)"
    and r: "find_asString rf1 ''finger'' = ''ring''" by simp_all
  note f = configure_Inr[OF c]
  show j: "joint m1 = 15" using f(1) r by (simp add: finger_joint_def)
  show "snd (snd (updateModule m1 t1)) =
            [Calibrate [(''finger'', PString ''ring'')], SetRefAcceleration 15 1000000000,
             SetRefSpeed 15 60, PositionMove 15 (min_d m1)]"
    using f(3) f(4) f(7) r j by (simp add: updateModule_first deref_def)
next
  assume a: "configure env2 True rf2 = (Inr m2, ev2) \<and> find_asString rf2 ''finger'' = ''middle''"
  then have c: "configure env2 True rf2 = (Inr m2, ev2)"
    and r: "find_asString rf2 ''finger'' = ''middle''" by simp_all
  note f = configure_Inr[OF c]
  show j: "joint m2 = 14" using f(1) r by (simp add: finger_joint_def)
  show "snd (snd (updateModule m2 t2)) =
            [Calibrate [(''finger'', PString ''middle'')], SetRefAcceleration 14 1000000000,
             SetRefSpeed 14 30, PositionMove 14 (min_d m2)]"
    using f(3) f(4) f(7) r j by (simp add: updateModule_first deref_def)
qed

theorem C7_first_tick_speed_witness:
  "fst (configure stub_env True (main_rf [(''finger'', ''ring'')]))
     = Inr (index_module\<lparr>fingerName := ''ring'', joint := 15\<rparr>)
   \<and> find_asString (main_rf [(''finger'', ''ring'')]) ''finger'' = ''ring''
   \<and> snd (snd (updateModule (index_module\<lparr>fingerName := ''ring'', joint := 15\<rparr>) (tick_at 40)))
       = [Calibrate [(''finger'', PString ''ring'')], SetRefAcceleration 15 1000000000,
          SetRefSpeed 15 60, PositionMove 15 9]
   \<and> fst (configure stub_env True (main_rf [(''finger'', ''middle'')]))
     = Inr (index_module\<lparr>fingerName := ''middle'', joint := 14\<rparr>)
   \<and> find_asString (main_rf [(''finger'', ''middle'')]) ''finger'' = ''middle''
   \<and> snd (snd (updateModule (index_module\<lparr>fingerName := ''middle'', joint := 14\<rparr>) (tick_at 40)))
       = [Calibrate [(''finger'', PString ''middle'')], SetRefAcceleration 14 1000000000,
          SetRefSpeed 14 30, PositionMove 14 9]"
proof -
  have r: "find_asString (main_rf [(''finger'', ''ring'')]) ''finger'' = ''ring''"
    and m: "find_asString (main_rf [(''finger'', ''middle'')]) ''finger'' = ''middle''"
    by (simp_all add: main_defs)
  have v: "min_d (index_module\<lparr>fingerName := ''ring'', joint := 15\<rparr>) = 9"
    "min_d (index_module\<lparr>fingerName := ''middle'', joint := 14\<rparr>) = 9"
    by (simp_all add: index_module_def)
  from C7_first_tick_speed[where env = stub_env and rf = "main_rf [(''finger'', ''ring'')]"
      and m = "index_module\<lparr>fingerName := ''ring'', joint := 15\<rparr>"
      and ?env1.0 = stub_env and ?rf1.0 = "main_rf [(''finger'', ''ring'')]"
      and ?m1.0 = "index_module\<lparr>fingerName := ''ring'', joint := 15\<rparr>"
      and ?env2.0 = stub_env and ?rf2.0 = "main_rf [(''finger'', ''middle'')]"
      and ?m2.0 = "index_module\<lparr>fingerName := ''middle'', joint := 14\<rparr>"
      and ?t1.0 = "tick_at 40" and ?t2.0 = "tick_at 40" and t = "tick_at 40"
      and ?ev0.0 = "snd (configure stub_env True (main_rf [(''finger'', ''ring'')]))"
      and ?ev1.0 = "snd (configure stub_env True (main_rf [(''finger'', ''ring'')]))"
      and ?ev2.0 = "snd (configure stub_env True (main_rf [(''finger'', ''middle'')]))"]
    ring_configure middle_configure r m v
  show ?thesis by simp
qed

text \<open>
  Claim C8. \<^verbatim>\<open>configure\<close> does not calibrate. The first tick of a configured module starts
  with the one call of \<^verbatim>\<open>model->calibrate\<close>, commands the joint to the lower bound and clears
  the flag; the ticks after it never calibrate and leave the flag cleared, so a session of at
  least one tick calibrates exactly once. A tick of a scanning module does not calibrate, and
  no run of \<open>main\<close> calibrates more than once.
\<close>

theorem C8_calibrate_once:
  "(configure env True rf = (Inr m, ev0) \<longrightarrow>
      calibrations ev0 = 0
      \<and> calibrations (snd (snd (updateModule m t))) = 1
      \<and> hd (snd (snd (updateModule m t))) = Calibrate [(''finger'', PString (fingerName m))]
      \<and> moves (snd (snd (updateModule m t))) = [(joint m, min_d m)]
      \<and> \<not> calibrate (fst (snd (updateModule m t)))
      \<and> calibrations (snd (runLoop (fst (snd (updateModule m t))) ts)) = 0
      \<and> \<not> calibrate (fst (runLoop (fst (snd (updateModule m t))) ts))
      \<and> calibrations (snd (runModule env True rf (t # ts))) = 1)
   \<and> (\<not> calibrate m' \<longrightarrow>
        calibrations (snd (snd (updateModule m' t'))) = 0
        \<and> \<not> calibrate (fst (snd (updateModule m' t'))))
   \<and> calibrations (snd (main net args env' ticks)) \<le> 1"
proof (intro conjI impI)
  assume c: "configure env True rf = (Inr m, ev0)"
  note f = configure_Inr[OF c]
  have cal: "calibrate m" using f(3) by simp
  show z: "calibrations ev0 = 0" by (rule f(9))
  show "calibrations (snd (snd (updateModule m t))) = 1"
    using cal by (simp add: updateModule_first)
  show "hd (snd (snd (updateModule m t))) = Calibrate [(''finger'', PString (fingerName m))]"
    using cal by (simp add: updateModule_first)
  show "moves (snd (snd (updateModule m t))) = [(joint m, min_d m)]"
    using cal f(7) by (simp add: updateModule_first deref_def)
  show sc: "\<not> calibrate (fst (snd (updateModule m t)))"
    using cal by (simp add: updateModule_first)
  from runLoop_scanning_calibrations[OF sc, of ts]
  show "calibrations (snd (runLoop (fst (snd (updateModule m t))) ts)) = 0"
    and "\<not> calibrate (fst (runLoop (fst (snd (updateModule m t))) ts))"
    by simp_all
  show "calibrations (snd (runModule env True rf (t # ts))) = 1"
    using c z cal
    by (simp add: runModule_def calibrations_append runLoop_calibrations close_def
        case_prod_unfold)
next
  assume s: "\<not> calibrate m'"
  then show "calibrations (snd (snd (updateModule m' t'))) = 0"
    by (simp add: updateModule_scan calibrations_append)
  from s show "\<not> calibrate (fst (snd (updateModule m' t')))"
    by (simp add: updateModule_scan)
next
  show "calibrations (snd (main net args env' ticks)) \<le> 1"
  proof (cases "configure env' True (main_rf args)")
    case (Pair r e)
    then show ?thesis
    proof (cases r)
      case (Inl x)
      with Pair configure_Inl(2)[of env' True "main_rf args" x e] show ?thesis
        by (simp add: main_def runModule_def)
    next
      case (Inr x)
      with Pair configure_Inr(9)[of env' True "main_rf args" x e] show ?thesis
        by (simp add: main_def runModule_def calibrations_append runLoop_calibrations close_def
            case_prod_unfold)
    qed
  qed
qed

theorem C8_calibrate_once_witness:
  "configure stub_env True (main_rf []) = (Inr index_module, index_configure_events)
   \<and> calibrations index_configure_events = 0
   \<and> calibrations (snd (snd (updateModule index_module tick_cal_fails))) = 1
   \<and> moves (snd (snd (updateModule index_module tick_cal_fails))) = [(12, 9)]
   \<and> calibrations (snd (runModule stub_env True (main_rf [])
        [tick_cal_fails, tick_at 7, tick_at 40, tick_at 80])) = 1
   \<and> \<not> calibrate index_scanning
   \<and> calibrations (snd (snd (updateModule index_scanning (tick_at 7)))) = 0"
proof -
  have s: "\<not> calibrate index_scanning" by (simp add: index_scanning_def)
  have v: "joint index_module = 12" "min_d index_module = 9" by (simp_all add: index_module_def)
  from C8_calibrate_once[where env = stub_env and rf = "main_rf []" and m = index_module
      and ?ev0.0 = index_configure_events and t = tick_cal_fails
      and ts = "[tick_at 7, tick_at 40, tick_at 80]" and m' = index_scanning and t' = "tick_at 7"]
    index_configure s v
  show ?thesis by simp
qed

text \<open>
  Claim C9, as amended. \<^verbatim>\<open>configure\<close> compares neither \<^verbatim>\<open>hand\<close> nor \<^verbatim>\<open>robot\<close> nor \<^verbatim>\<open>name\<close> with
  anything; its outcome is decided in this order. It answers \<^verbatim>\<open>unknown finger!\<close> exactly when
  the finger is not recognised. Otherwise it fails at \<^verbatim>\<open>driver.open\<close> exactly when the driver
  refuses the options built from name, robot and hand. Otherwise it answers
  \<^verbatim>\<open>unknown model type!\<close> exactly when the model type is not recognised. Otherwise it fails
  exactly when the model's \<^verbatim>\<open>fromProperty\<close> refuses the options built from name, robot, hand
  and model type, and succeeds exactly when it accepts them. \<^verbatim>\<open>hand\<close> goes into the remote
  port name and is also the \<^verbatim>\<open>type\<close> entry of the model's options: its value can make
  \<^verbatim>\<open>configure\<close> fail, through those two calls and through nothing else.
\<close>

theorem C9_hand_not_validated:
  "(fst (configure env cal rf) = Inl UnknownFinger
      \<longleftrightarrow> finger_joint (find_asString rf ''finger'') = None)
   \<and> (fst (configure env cal rf) = Inl DriverOpenFailed
      \<longleftrightarrow> finger_joint (find_asString rf ''finger'') \<noteq> None
          \<and> \<not> driver_open env (driverOpt (find_asString rf ''name'') (find_asString rf ''robot'')
                                  (find_asString rf ''hand'')))
   \<and> (fst (configure env cal rf) = Inl UnknownModelType
      \<longleftrightarrow> finger_joint (find_asString rf ''finger'') \<noteq> None
          \<and> driver_open env (driverOpt (find_asString rf ''name'') (find_asString rf ''robot'')
                                (find_asString rf ''hand''))
          \<and> new_model (find_asString rf ''modelType'') = None)
   \<and> (fst (configure env cal rf) = Inl FromPropertyFailed
      \<longleftrightarrow> finger_joint (find_asString rf ''finger'') \<noteq> None
          \<and> driver_open env (driverOpt (find_asString rf ''name'') (find_asString rf ''robot'')
                                (find_asString rf ''hand''))
          \<and> (\<exists>k. new_model (find_asString rf ''modelType'') = Some k
                \<and> \<not> fromProperty env k (model_options (find_asString rf ''name'')
                       (find_asString rf ''robot'') (find_asString rf ''hand'')
                       (find_asString rf ''modelType''))))
   \<and> ((\<exists>m. fst (configure env cal rf) = Inr m)
      \<longleftrightarrow> finger_joint (find_asString rf ''finger'') \<noteq> None
          \<and> driver_open env (driverOpt (find_asString rf ''name'') (find_asString rf ''robot'')
                                (find_asString rf ''hand''))
          \<and> (\<exists>k. new_model (find_asString rf ''modelType'') = Some k
                \<and> fromProperty env k (model_options (find_asString rf ''name'')
                       (find_asString rf ''robot'') (find_asString rf ''hand'')
                       (find_asString rf ''modelType''))))
   \<and> map_of (driverOpt name robot hand) ''remote''
        = Some (PString (''/'' @ robot @ ''/'' @ hand @ ''_arm''))
   \<and> map_of (model_options name robot hand modelType) ''type'' = Some (PString hand)"
proof (intro conjI)
  show "fst (configure env cal rf) = Inl UnknownFinger
      \<longleftrightarrow> finger_joint (find_asString rf ''finger'') = None"
    by (auto simp: configure_def Let_def split: option.splits prod.splits)
  show "fst (configure env cal rf) = Inl DriverOpenFailed
      \<longleftrightarrow> finger_joint (find_asString rf ''finger'') \<noteq> None
          \<and> \<not> driver_open env (driverOpt (find_asString rf ''name'') (find_asString rf ''robot'')
                                  (find_asString rf ''hand''))"
    by (auto simp: configure_def Let_def split: option.splits prod.splits)
  show "fst (configure env cal rf) = Inl UnknownModelType
      \<longleftrightarrow> finger_joint (find_asString rf ''finger'') \<noteq> None
          \<and> driver_open env (driverOpt (find_asString rf ''name'') (find_asString rf ''robot'')
                                (find_asString rf ''hand''))
          \<and> new_model (find_asString rf ''modelType'') = None"
    by (auto simp: configure_def Let_def split: option.splits prod.splits)
  show "fst (configure env cal rf) = Inl FromPropertyFailed
      \<longleftrightarrow> finger_joint (find_asString rf ''finger'') \<noteq> None
          \<and> driver_open env (driverOpt (find_asString rf ''name'') (find_asString rf ''robot'')
                                (find_asString rf ''hand''))
          \<and> (\<exists>k. new_model (find_asString rf ''modelType'') = Some k
                \<and> \<not> fromProperty env k (model_options (find_asString rf ''name'')
                       (find_asString rf ''robot'') (find_asString rf ''hand'')
                       (find_asString rf ''modelType'')))"
    by (auto simp: configure_def Let_def split: option.splits prod.splits)
  show "(\<exists>m. fst (configure env cal rf) = Inr m)
      \<longleftrightarrow> finger_joint (find_asString rf ''finger'') \<noteq> None
          \<and> driver_open env (driverOpt (find_asString rf ''name'') (find_asString rf ''robot'')
                                (find_asString rf ''hand''))
          \<and> (\<exists>k. new_model (find_asString rf ''modelType'') = Some k
                \<and> fromProperty env k (model_options (find_asString rf ''name'')
                       (find_asString rf ''robot'') (find_asString rf ''hand'')
                       (find_asString rf ''modelType'')))"
    by (auto simp: configure_def Let_def split: option.splits prod.splits)
  show "map_of (driverOpt name robot hand) ''remote''
        = Some (PString (''/'' @ robot @ ''/'' @ hand @ ''_arm''))"
    by (simp add: driverOpt_def)
  show "map_of (model_options name robot hand modelType) ''type'' = Some (PString hand)"
    by (simp add: model_options_def genOpt_def)
qed

theorem C9_hand_not_validated_witness:
  "fst (configure icub_env True (main_rf [(''hand'', ''foo'')])) = Inl DriverOpenFailed
   \<and> \<not> driver_open icub_env (driverOpt ''percex'' ''icub'' ''foo'')
   \<and> fst (configure icub_env True (main_rf [(''hand'', ''left'')])) = Inr index_module
   \<and> driver_open icub_env (driverOpt ''percex'' ''icub'' ''left'')
   \<and> fromProperty icub_env SpringyFingersModel (model_options ''percex'' ''icub'' ''left'' ''springy'')
   \<and> fst (configure icub_env True (main_rf [(''hand'', ''left''), (''modelType'', ''fuzzy'')]))
       = Inl UnknownModelType
   \<and> fst (configure icub_env True (main_rf [(''hand'', ''foo''), (''modelType'', ''fuzzy'')]))
       = Inl DriverOpenFailed
   \<and> fst (configure icub_env True (main_rf [(''hand'', ''left''), (''finger'', ''pinky'')]))
       = Inl UnknownFinger"
proof -
  have f: "find_asString (main_rf [(''hand'', ''left'')]) ''finger'' = ''index''"
    "find_asString (main_rf [(''hand'', ''left'')]) ''modelType'' = ''springy''"
    "find_asString (main_rf [(''hand'', ''left'')]) ''name'' = ''percex''"
    "find_asString (main_rf [(''hand'', ''left'')]) ''robot'' = ''icub''"
    "find_asString (main_rf [(''hand'', ''left'')]) ''hand'' = ''left''"
    "find_asString (main_rf [(''hand'', ''foo'')]) ''finger'' = ''index''"
    "find_asString (main_rf [(''hand'', ''foo'')]) ''name'' = ''percex''"
    "find_asString (main_rf [(''hand'', ''foo'')]) ''robot'' = ''icub''"
    "find_asString (main_rf [(''hand'', ''foo'')]) ''hand'' = ''foo''"
    by (simp_all add: main_defs)
  have g: "find_asString (main_rf [(''hand'', ''left''), (''modelType'', ''fuzzy'')]) ''finger''
             = ''index''"
    "find_asString (main_rf [(''hand'', ''left''), (''modelType'', ''fuzzy'')]) ''modelType''
             = ''fuzzy''"
    "find_asString (main_rf [(''hand'', ''left''), (''modelType'', ''fuzzy'')]) ''name'' = ''percex''"
    "find_asString (main_rf [(''hand'', ''left''), (''modelType'', ''fuzzy'')]) ''robot'' = ''icub''"
    "find_asString (main_rf [(''hand'', ''left''), (''modelType'', ''fuzzy'')]) ''hand'' = ''left''"
    "find_asString (main_rf [(''hand'', ''foo''), (''modelType'', ''fuzzy'')]) ''finger''
             = ''index''"
    "find_asString (main_rf [(''hand'', ''foo''), (''modelType'', ''fuzzy'')]) ''name'' = ''percex''"
    "find_asString (main_rf [(''hand'', ''foo''), (''modelType'', ''fuzzy'')]) ''robot'' = ''icub''"
    "find_asString (main_rf [(''hand'', ''foo''), (''modelType'', ''fuzzy'')]) ''hand'' = ''foo''"
    "find_asString (main_rf [(''hand'', ''left''), (''finger'', ''pinky'')]) ''finger'' = ''pinky''"
    by (simp_all add: main_defs)
  have o: "\<not> driver_open icub_env (driverOpt ''percex'' ''icub'' ''foo'')"
    "driver_open icub_env (driverOpt ''percex'' ''icub'' ''left'')"
    "fromProperty icub_env SpringyFingersModel (model_options ''percex'' ''icub'' ''left'' ''springy'')"
    by (simp_all add: icub_env_def driverOpt_def)
  have j: "finger_joint ''index'' = Some 12" "finger_joint ''pinky'' = None"
    "new_model ''fuzzy'' = None" "new_model ''springy'' = Some SpringyFingersModel"
    by (simp_all add: finger_joint_def new_model_def)
  from C9_hand_not_validated[where env = icub_env and cal = True
      and rf = "main_rf [(''hand'', ''foo'')]"]
    C9_hand_not_validated[where env = icub_env and cal = True
      and rf = "main_rf [(''hand'', ''left''), (''modelType'', ''fuzzy'')]"]
    C9_hand_not_validated[where env = icub_env and cal = True
      and rf = "main_rf [(''hand'', ''foo''), (''modelType'', ''fuzzy'')]"]
    C9_hand_not_validated[where env = icub_env and cal = True
      and rf = "main_rf [(''hand'', ''left''), (''finger'', ''pinky'')]"]
    f g o j icub_configure_left
  show ?thesis by simp
qed

text \<open>
  Claim C9 as stated fails in its last two clauses. On a robot whose control boards are the
  two arms of \<^verbatim>\<open>icub\<close>, the option \<^verbatim>\<open>--hand foo\<close> makes \<^verbatim>\<open>configure\<close> fail at \<^verbatim>\<open>driver.open\<close>
  although finger and model type are the recognised defaults; and the value of \<^verbatim>\<open>hand\<close> is
  not only part of the remote port name, it is passed to the model's \<^verbatim>\<open>fromProperty\<close> as the
  \<^verbatim>\<open>type\<close> option.
\<close>

theorem C9_counterexample:
  "finger_joint (find_asString (main_rf [(''hand'', ''foo'')]) ''finger'') = Some 12
   \<and> new_model (find_asString (main_rf [(''hand'', ''foo'')]) ''modelType'')
       = Some SpringyFingersModel
   \<and> configure icub_env True (main_rf [(''hand'', ''foo'')])
       = (Inl DriverOpenFailed, [DriverOpen (driverOpt ''percex'' ''icub'' ''foo'')])
   \<and> fst (configure icub_env True (main_rf [(''hand'', ''left'')])) = Inr index_module
   \<and> FromProperty SpringyFingersModel (model_options ''percex'' ''icub'' ''left'' ''springy'')
       \<in> set (snd (configure icub_env True (main_rf [(''hand'', ''left'')])))
   \<and> map_of (model_options ''percex'' ''icub'' ''left'' ''springy'') ''type''
       = Some (PString ''left'')"
  by (simp add: main_defs configure_def finger_joint_def new_model_def icub_env_def
      Let_def driverOpt_def index_module_def model_options_def genOpt_def)

text \<open>
  Claim C10. A tick always returns \<^verbatim>\<open>true\<close>. On a scanning tick for which \<^verbatim>\<open>getNode\<close> returns the
  null pointer, the calls are \<^verbatim>\<open>getNode\<close>, \<^verbatim>\<open>getEncoder\<close> and, when \<open>\<bar>*val - fb\<bar> < 5\<close>, the
  toggle of \<^verbatim>\<open>val\<close> followed by \<^verbatim>\<open>positionMove\<close> to the new target; no report line is printed.
  The toggle sends \<^verbatim>\<open>&min\<close> to \<^verbatim>\<open>&max\<close> and \<^verbatim>\<open>&max\<close> to \<^verbatim>\<open>&min\<close>, and \<^verbatim>\<open>*val\<close> is the member
  pointed to: heading for the lower bound, the tick turns to the upper bound and commands
  it, and the other way round. The members after a scanning tick and the moves it commands do
  not depend on the node.
\<close>

theorem C10_null_node_still_moves:
  "fst (updateModule m t) = True
   \<and> toggle AddrMin = AddrMax \<and> toggle AddrMax = AddrMin
   \<and> deref m AddrMin = min_d m \<and> deref m AddrMax = max_d m
   \<and> (\<not> calibrate m \<and> node t = None \<longrightarrow>
        updateModule m t =
          (True,
           (if \<bar>deref m (val m) - fb t\<bar> < 5 then m\<lparr>val := toggle (val m)\<rparr> else m),
           GetNode (fingerName m) # GetEncoder (joint m) #
           (if \<bar>deref m (val m) - fb t\<bar> < 5
            then [PositionMove (joint m) (deref m (toggle (val m)))] else []))
        \<and> Report a b c \<notin> set (snd (snd (updateModule m t))))
   \<and> (\<not> calibrate m \<and> node t = None \<and> val m = AddrMin \<and> \<bar>min_d m - fb t\<bar> < 5 \<longrightarrow>
        updateModule m t =
          (True, m\<lparr>val := AddrMax\<rparr>,
           [GetNode (fingerName m), GetEncoder (joint m), PositionMove (joint m) (max_d m)]))
   \<and> (\<not> calibrate m \<and> node t = None \<and> val m = AddrMax \<and> \<bar>max_d m - fb t\<bar> < 5 \<longrightarrow>
        updateModule m t =
          (True, m\<lparr>val := AddrMin\<rparr>,
           [GetNode (fingerName m), GetEncoder (joint m), PositionMove (joint m) (min_d m)]))
   \<and> (\<not> calibrate m \<longrightarrow>
        fst (snd (updateModule m (t\<lparr>node := n\<rparr>))) = fst (snd (updateModule m t))
        \<and> moves (snd (snd (updateModule m (t\<lparr>node := n\<rparr>)))) = moves (snd (snd (updateModule m t))))"
proof (intro conjI impI)
  show "fst (updateModule m t) = True"
    by (cases "calibrate m") (simp_all add: updateModule_first updateModule_scan)
next
  show "toggle AddrMin = AddrMax" "toggle AddrMax = AddrMin"
    by (simp_all add: toggle_def)
  show "deref m AddrMin = min_d m" "deref m AddrMax = max_d m"
    by (simp_all add: deref_def)
next
  assume a: "\<not> calibrate m \<and> node t = None"
  then show "updateModule m t =
          (True,
           (if \<bar>deref m (val m) - fb t\<bar> < 5 then m\<lparr>val := toggle (val m)\<rparr> else m),
           GetNode (fingerName m) # GetEncoder (joint m) #
           (if \<bar>deref m (val m) - fb t\<bar> < 5
            then [PositionMove (joint m) (deref m (toggle (val m)))] else []))"
    by (simp add: updateModule_scan)
  from a show "Report a b c \<notin> set (snd (snd (updateModule m t)))"
    by (simp add: updateModule_scan)
next
  assume "\<not> calibrate m \<and> node t = None \<and> val m = AddrMin \<and> \<bar>min_d m - fb t\<bar> < 5"
  then show "updateModule m t =
          (True, m\<lparr>val := AddrMax\<rparr>,
           [GetNode (fingerName m), GetEncoder (joint m), PositionMove (joint m) (max_d m)])"
    by (simp add: updateModule_scan deref_def toggle_def)
next
  assume "\<not> calibrate m \<and> node t = None \<and> val m = AddrMax \<and> \<bar>max_d m - fb t\<bar> < 5"
  then show "updateModule m t =
          (True, m\<lparr>val := AddrMin\<rparr>,
           [GetNode (fingerName m), GetEncoder (joint m), PositionMove (joint m) (min_d m)])"
    by (simp add: updateModule_scan deref_def toggle_def)
next
  assume s: "\<not> calibrate m"
  then show "fst (snd (updateModule m (t\<lparr>node := n\<rparr>))) = fst (snd (updateModule m t))"
    by (simp add: updateModule_scan)
  from s show "moves (snd (snd (updateModule m (t\<lparr>node := n\<rparr>))))
                 = moves (snd (snd (updateModule m t)))"
    by (simp add: updateModule_scan moves_append)
qed

theorem C10_null_node_still_moves_witness:
  "\<not> calibrate index_scanning \<and> node (tick_at 7) = None \<and> val index_scanning = AddrMin
   \<and> \<bar>min_d index_scanning - fb (tick_at 7)\<bar> < 5
   \<and> updateModule index_scanning (tick_at 7)
       = (True, index_scanning\<lparr>val := AddrMax\<rparr>,
          [GetNode ''index'', GetEncoder 12, PositionMove 12 81])
   \<and> \<not> calibrate index_scanning_hi \<and> node (tick_at 80) = None \<and> val index_scanning_hi = AddrMax
   \<and> \<bar>max_d index_scanning_hi - fb (tick_at 80)\<bar> < 5
   \<and> updateModule index_scanning_hi (tick_at 80)
       = (True, index_scanning_hi\<lparr>val := AddrMin\<rparr>,
          [GetNode ''index'', GetEncoder 12, PositionMove 12 9])
   \<and> updateModule index_scanning (tick_at 40)
       = (True, index_scanning, [GetNode ''index'', GetEncoder 12])
   \<and> fst (snd (updateModule index_scanning (tick_node_at 7)))
       = fst (snd (updateModule index_scanning (tick_at 7)))
   \<and> moves (snd (snd (updateModule index_scanning (tick_node_at 7)))) = [(12, 81)]"
proof -
  have s: "\<not> calibrate index_scanning" "\<not> calibrate index_scanning_hi"
    by (simp_all add: index_scanning_def index_scanning_hi_def)
  have n: "node (tick_at 7) = None" "node (tick_at 40) = None" "node (tick_at 80) = None"
    by (simp_all add: tick_at_def)
  have e: "tick_node_at 7 = (tick_at 7)\<lparr>node := node (tick_node_at 7)\<rparr>"
    by (simp add: tick_node_at_def tick_at_def)
  have v: "fingerName index_scanning = ''index''" "joint index_scanning = 12"
    "val index_scanning = AddrMin" "min_d index_scanning = 9" "max_d index_scanning = 81"
    "fingerName index_scanning_hi = ''index''" "joint index_scanning_hi = 12"
    "val index_scanning_hi = AddrMax" "min_d index_scanning_hi = 9" "max_d index_scanning_hi = 81"
    "fb (tick_at 7) = 7" "fb (tick_at 40) = 40" "fb (tick_at 80) = 80"
    by (simp_all add: index_scanning_def index_scanning_hi_def index_module_def tick_at_def)
  from C10_null_node_still_moves[where m = index_scanning and t = "tick_at 7"
      and n = "node (tick_node_at 7)"]
    C10_null_node_still_moves[where m = index_scanning_hi and t = "tick_at 80"]
    C10_null_node_still_moves[where m = index_scanning and t = "tick_at 40"]
    s n v e
  show ?thesis by simp
qed

end
